theory Spec2Isabelle
  imports Main "HOL-Library.AList"
begin

section \<open>Python values shared by the modules\<close>

text \<open>
  Python dictionaries keep their keys unique and in insertion order. They are modelled as
  association lists: \<open>d[k] = v\<close> is \<open>AList.update k v\<close> (an existing key keeps its place, a
  new key goes to the end), \<open>d.get(k)\<close> is \<open>map_of d k\<close>, \<open>d.pop(k, None)\<close> is
  \<open>AList.delete k\<close> and \<open>len(d)\<close> is \<open>length\<close>.

  Exceptions are values. \<open>TimeoutError\<close> and \<open>OtherException\<close> are subclasses of Python's
  \<open>Exception\<close>; \<open>CancelledError\<close> derives from \<open>BaseException\<close> only, so an
  \<open>except Exception\<close> clause does not catch it.
\<close>

datatype exn = TimeoutError | OtherException string | CancelledError

fun is_Exception :: "exn \<Rightarrow> bool" where
  "is_Exception CancelledError = False"
| "is_Exception _ = True"

section \<open>cloud-backend/orchestrator/agent\_bridge.py\<close>

subsection \<open>AgentBridge\<close>

text \<open>
  An \<open>asyncio.Future\<close> is pending, finished with a result, or cancelled;
  \<open>done()\<close> holds in the last two states.
\<close>

datatype future = Pending | Finished string | Cancelled



record 'ws AgentBridge =
  ws :: 'ws
  agent_id :: string
  pending :: "(string \<times> future) list"








subsection \<open>AgentPool\<close>

record 'ws AgentPool =
  agents :: "(string \<times> 'ws AgentBridge) list"
  system_map :: "(string \<times> string) list"

definition AgentPool_init :: "'ws AgentPool" where
  "AgentPool_init = \<lparr>agents = [], system_map = []\<rparr>"

definition register ::
  "'ws AgentPool \<Rightarrow> string \<Rightarrow> 'ws \<Rightarrow> 'ws AgentBridge \<times> 'ws AgentPool" where
  "register p aid w =
     (let bridge = \<lparr>ws = w, agent_id = aid, pending = []\<rparr>
      in (bridge, p\<lparr>agents := AList.update aid bridge (agents p)\<rparr>))"

definition unregister :: "'ws AgentPool \<Rightarrow> string \<Rightarrow> 'ws AgentPool" where
  "unregister p aid =
     p\<lparr>agents := AList.delete aid (agents p),
       system_map := filter (\<lambda>(k, v). v \<noteq> aid) (system_map p)\<rparr>"

definition map_system :: "'ws AgentPool \<Rightarrow> string \<Rightarrow> string \<Rightarrow> 'ws AgentPool" where
  "map_system p system_name aid =
     p\<lparr>system_map := AList.update system_name aid (system_map p)\<rparr>"

definition get_by_agent_id :: "'ws AgentPool \<Rightarrow> string \<Rightarrow> 'ws AgentBridge option" where
  "get_by_agent_id p aid = map_of (agents p) aid"

text \<open>
  \<open>get_by_system\<close>: \<open>if agent_id:\<close> is false for a missing key and for the empty string.
\<close>

definition get_by_system :: "'ws AgentPool \<Rightarrow> string \<Rightarrow> 'ws AgentBridge option" where
  "get_by_system p system_name =
     (case map_of (system_map p) system_name of
        Some aid \<Rightarrow> if aid \<noteq> [] then map_of (agents p) aid else None
      | None \<Rightarrow> None)"

definition get_any :: "'ws AgentPool \<Rightarrow> 'ws AgentBridge option" where
  "get_any p = (case agents p of [] \<Rightarrow> None | (k, bridge) # rest \<Rightarrow> Some bridge)"

definition connected_count :: "'ws AgentPool \<Rightarrow> nat" where
  "connected_count p = length (agents p)"

definition connected_agents :: "'ws AgentPool \<Rightarrow> string list" where
  "connected_agents p = map fst (agents p)"

text \<open>
  Python keeps the keys of a dictionary unique; the pool's two tables start empty and
  every operation keeps them so.
\<close>

definition pool_ok :: "'ws AgentPool \<Rightarrow> bool" where
  "pool_ok p = (distinct (map fst (agents p)) \<and> distinct (map fst (system_map p)))"

section \<open>JSON values and library functions\<close>

text \<open>
  A decoded JSON value. Python's \<open>None\<close> is \<open>JNull\<close>; a \<open>dict\<close> is \<open>JObj\<close> of an
  association list. A frame on the wire is such a dictionary.
\<close>

datatype json = JNull | JStr string | JNum int | JArr "json list" | JObj "(string \<times> json) list"

type_synonym frame = "(string \<times> json) list"

text \<open>\<open>d.get(key, default)\<close> on a dictionary.\<close>

definition dict_get :: "frame \<Rightarrow> string \<Rightarrow> json \<Rightarrow> json" where
  "dict_get d k dflt = (case map_of d k of Some v \<Rightarrow> v | None \<Rightarrow> dflt)"

text \<open>
  Functions of the Python library whose text output the model does not compute:
  \<open>json.dumps\<close>, \<open>datetime.isoformat\<close> (a time is a number of seconds) and \<open>repr\<close> of a
  value that is neither a string nor \<open>None\<close>.
\<close>

record pylib =
  json_dumps :: "frame \<Rightarrow> string"
  isoformat :: "nat \<Rightarrow> string"
  repr :: "json \<Rightarrow> string"

text \<open>\<open>str(v)\<close>, as an f-string formats a value.\<close>

definition py_str :: "pylib \<Rightarrow> json \<Rightarrow> string" where
  "py_str lib v = (case v of JStr s \<Rightarrow> s | JNull \<Rightarrow> ''None'' | _ \<Rightarrow> repr lib v)"

text \<open>\<open>str(e)\<close> of an exception: its message.\<close>

fun str_exn :: "exn \<Rightarrow> string" where
  "str_exn (OtherException msg) = msg"
| "str_exn _ = []"

section \<open>agent-sdk/agent.py\<close>

text \<open>
  The tools of \<open>tools.mcp_server\<close> reach the SAP system; each is a parameter here, called
  with the command's \<open>params\<close> and returning a string or raising.
\<close>

record mcp_server =
  sap_search :: "json \<Rightarrow> exn + string"
  sap_read :: "json \<Rightarrow> exn + string"
  sap_write :: "json \<Rightarrow> exn + string"
  sap_activate :: "json \<Rightarrow> exn + string"
  sap_syntax_check :: "json \<Rightarrow> exn + string"
  sap_atc :: "json \<Rightarrow> exn + string"

text \<open>
  \<open>_handle_cloud_command\<close>. \<open>Inr\<close> is the returned dictionary; \<open>Inl\<close> is an exception
  that the \<open>except Exception\<close> clause does not catch.
\<close>

definition handle_cloud_command :: "pylib \<Rightarrow> mcp_server \<Rightarrow> frame \<Rightarrow> exn + frame" where
  "handle_cloud_command lib tools command =
     (let cmd_type = dict_get command ''type'' JNull;
          params = dict_get command ''params'' (JObj []);
          session_id = dict_get command ''session_id'' (JStr []);
          body =
            (if cmd_type = JStr ''search'' then sap_search tools params
             else if cmd_type = JStr ''read'' then sap_read tools params
             else if cmd_type = JStr ''write'' then sap_write tools params
             else if cmd_type = JStr ''activate'' then sap_activate tools params
             else if cmd_type = JStr ''syntax_check'' then sap_syntax_check tools params
             else if cmd_type = JStr ''atc'' then sap_atc tools params
             else if cmd_type = JStr ''ping'' then Inr ''pong''
             else Inr (''Unknown command: '' @ py_str lib cmd_type))
      in case body of
           Inr result \<Rightarrow>
             Inr [(''type'', JStr ''result''), (''session_id'', session_id),
                  (''data'', JStr result)]
         | Inl e \<Rightarrow>
             if is_Exception e
             then Inr [(''type'', JStr ''error''), (''session_id'', session_id),
                       (''error'', JStr (str_exn e))]
             else Inl e)"

text \<open>The command kinds for which the dispatcher has a branch.\<close>

definition known_commands :: "string list" where
  "known_commands =
     [''search'', ''read'', ''write'', ''activate'', ''syntax_check'', ''atc'', ''ping'']"

section \<open>cloud-backend/api/main.py\<close>

text \<open>\<open>s.replace(old, new)\<close>: every occurrence, left to right, without overlap.\<close>

function py_replace :: "string \<Rightarrow> string \<Rightarrow> string \<Rightarrow> string" where
  "py_replace old new s =
     (if old = [] then new @ concat (map (\<lambda>c. c # new) s)
      else if s = [] then []
      else if take (length old) s = old
           then new @ py_replace old new (drop (length old) s)
           else hd s # py_replace old new (tl s))"
  by pat_completeness auto
termination
  by (relation "measure (\<lambda>(old, new, s). length s)") auto

declare py_replace.simps [simp del]

text \<open>\<open>_validate_agent_token\<close>.\<close>

definition validate_agent_token :: "string \<Rightarrow> string option" where
  "validate_agent_token token =
     (if token = [] \<or> take 4 token \<noteq> ''acs_'' then None
      else Some (''agent_'' @ take 16 token))"

text \<open>
  What the endpoint does to the socket and to the module-level table
  \<open>_agent_connections\<close>, in order. \<open>Register\<close> is the assignment
  \<open>_agent_connections[agent_id] = ws\<close>, \<open>Unregister\<close> the \<open>pop\<close> of the \<open>finally\<close>
  clause; the others are the calls of the same names. Log lines are left out.
\<close>

datatype ws_action =
    Accept
  | Close nat string
  | Register string
  | ReceiveJson
  | ProcessAgentResult json json
  | StoreDiff json json
  | UpdatePipeline json json
  | Unregister string

text \<open>
  The helpers only log. \<open>_process_agent_result\<close> takes \<open>len(result)\<close>, which raises for
  \<open>None\<close> and for a number; \<open>_update_pipeline\<close> calls \<open>step.get\<close>, which only a dictionary
  has.
\<close>

definition process_agent_result :: "json \<Rightarrow> json \<Rightarrow> exn option" where
  "process_agent_result session_id result =
     (case result of
        JNull \<Rightarrow> Some (OtherException ''TypeError'')
      | JNum n \<Rightarrow> Some (OtherException ''TypeError'')
      | _ \<Rightarrow> None)"

definition update_pipeline :: "json \<Rightarrow> json \<Rightarrow> exn option" where
  "update_pipeline session_id step =
     (case step of JObj d \<Rightarrow> None | _ \<Rightarrow> Some (OtherException ''AttributeError''))"

text \<open>
  The \<open>while True\<close> loop over \<open>ws.receive_json()\<close>: the frames the agent sends, then the
  disconnect. The result is the actions and the exception that leaves the loop, if it is
  not \<open>WebSocketDisconnect\<close>.
\<close>

fun receive_loop :: "frame list \<Rightarrow> ws_action list \<times> exn option" where
  "receive_loop [] = ([ReceiveJson], None)"
| "receive_loop (data # rest) =
     (let msg_type = dict_get data ''type'' JNull;
          (acts, err) =
            (if msg_type = JStr ''agent_status'' then ([], None)
             else if msg_type = JStr ''result'' then
               ([ProcessAgentResult (dict_get data ''session_id'' JNull)
                                    (dict_get data ''data'' JNull)],
                process_agent_result (dict_get data ''session_id'' JNull)
                                     (dict_get data ''data'' JNull))
             else if msg_type = JStr ''diff'' then
               ([StoreDiff (dict_get data ''session_id'' JNull)
                           (dict_get data ''diff'' JNull)], None)
             else if msg_type = JStr ''pipeline'' then
               ([UpdatePipeline (dict_get data ''session_id'' JNull)
                                (dict_get data ''step'' JNull)],
                update_pipeline (dict_get data ''session_id'' JNull)
                                (dict_get data ''step'' JNull))
             else ([], None))
      in case err of
           Some e \<Rightarrow> (ReceiveJson # acts, Some e)
         | None \<Rightarrow> (let (acts', err') = receive_loop rest
                     in (ReceiveJson # acts @ acts', err')))"

text \<open>
  The token the endpoint takes from the handshake headers (their names in lower case):
  \<open>ws.headers.get("authorization", "").replace("Bearer ", "")\<close>.
\<close>

definition extract_token :: "(string \<times> string) list \<Rightarrow> string" where
  "extract_token headers =
     py_replace ''Bearer '' []
       (case map_of headers ''authorization'' of Some h \<Rightarrow> h | None \<Rightarrow> [])"

text \<open>
  \<open>agent_websocket\<close>. \<open>headers\<close> are the handshake headers, \<open>frames\<close> the frames the
  agent goes on to send. The result is the actions, the table afterwards and the
  exception that propagates, if any. \<open>if not agent_id\<close> holds for \<open>None\<close> and for the
  empty string.
\<close>

definition agent_websocket ::
  "(string \<times> 'ws) list \<Rightarrow> 'ws \<Rightarrow> (string \<times> string) list \<Rightarrow> frame list
     \<Rightarrow> ws_action list \<times> (string \<times> 'ws) list \<times> exn option" where
  "agent_websocket agent_connections w headers frames =
     (let token = extract_token headers;
          rejected = ([Accept, Close 4001 ''Invalid agent token''], agent_connections, None)
      in case validate_agent_token token of
           None \<Rightarrow> rejected
         | Some aid \<Rightarrow>
             if aid = [] then rejected
             else
               (let conns = AList.update aid w agent_connections;
                    (acts, err) = receive_loop frames
                in (Accept # Register aid # acts @ [Unregister aid],
                    AList.delete aid conns, err)))"

section \<open>agent-sdk/tunnel.py\<close>

definition RECONNECT_DELAY_INITIAL :: nat where
  "RECONNECT_DELAY_INITIAL = 2"

definition RECONNECT_DELAY_MAX :: nat where
  "RECONNECT_DELAY_MAX = 60"

definition HEARTBEAT_INTERVAL :: nat where
  "HEARTBEAT_INTERVAL = 30"

text \<open>The tunnel's own \<open>COMMAND_TIMEOUT\<close>; the bridge has another constant of that name.\<close>

definition tunnel_COMMAND_TIMEOUT :: nat where
  "tunnel_COMMAND_TIMEOUT = 120"

text \<open>A \<open>datetime\<close> is a number of seconds; an unset \<open>Optional\<close> field is \<open>None\<close>.\<close>

record TunnelStats =
  connected_since :: "nat option"
  messages_sent :: nat
  messages_received :: nat
  commands_processed :: nat
  reconnect_count :: nat
  last_heartbeat :: "nat option"
  bytes_sent :: nat
  bytes_received :: nat

definition TunnelStats_init :: TunnelStats where
  "TunnelStats_init =
     \<lparr>connected_since = None, messages_sent = 0, messages_received = 0,
      commands_processed = 0, reconnect_count = 0, last_heartbeat = None,
      bytes_sent = 0, bytes_received = 0\<rparr>"

text \<open>
  The connection object that \<open>websockets.connect\<close> yields is open until the peer or the
  network closes it; the object stays where it is stored. Its \<open>send\<close> raises
  \<open>ConnectionClosed\<close> once the connection is closed.
\<close>

datatype channel = OpenChannel | ClosedChannel

definition channel_send :: "channel \<Rightarrow> string \<Rightarrow> exn option" where
  "channel_send c raw =
     (case c of OpenChannel \<Rightarrow> None
      | ClosedChannel \<Rightarrow> Some (OtherException ''ConnectionClosed''))"

text \<open>
  A call of the logger: its level, the message as the source writes it (placeholders not
  filled in) and the values that fill the placeholders.
\<close>

datatype log_level = DEBUG | INFO | WARNING | ERROR

datatype log_arg = ArgStr string | ArgNat nat | ArgJson json | ArgExn exn

type_synonym log_entry = "log_level \<times> string \<times> log_arg list"

record WebSocketTunnel =
  agent_token :: string
  tunnel_ws :: "channel option"
  running :: bool
  stats :: TunnelStats
  tunnel_log :: "log_entry list"

definition WebSocketTunnel_init :: "string \<Rightarrow> WebSocketTunnel" where
  "WebSocketTunnel_init token =
     \<lparr>agent_token = token, tunnel_ws = None, running = False,
      stats = TunnelStats_init, tunnel_log = []\<rparr>"

definition is_connected :: "WebSocketTunnel \<Rightarrow> bool" where
  "is_connected t = (tunnel_ws t \<noteq> None \<and> running t)"

definition logger :: "log_level \<Rightarrow> string \<Rightarrow> log_arg list \<Rightarrow> WebSocketTunnel \<Rightarrow> WebSocketTunnel" where
  "logger lvl msg args t = t\<lparr>tunnel_log := tunnel_log t @ [(lvl, msg, args)]\<rparr>"

text \<open>
  \<open>_send\<close>. The first component is the exception that leaves the call, if any.
  (The source's message has a dash where the model writes a hyphen.)
\<close>

definition send :: "pylib \<Rightarrow> WebSocketTunnel \<Rightarrow> frame \<Rightarrow> exn option \<times> WebSocketTunnel" where
  "send lib t data =
     (case tunnel_ws t of
        None \<Rightarrow> (None, logger WARNING ''Cannot send - not connected'' [] t)
      | Some c \<Rightarrow>
          (let raw = json_dumps lib data in
           case channel_send c raw of
             Some e \<Rightarrow> (Some e, t)
           | None \<Rightarrow>
               (None,
                t\<lparr>stats := (stats t)\<lparr>messages_sent := messages_sent (stats t) + 1,
                                      bytes_sent := bytes_sent (stats t) + length raw\<rparr>\<rparr>)))"

definition send_status :: "pylib \<Rightarrow> nat \<Rightarrow> WebSocketTunnel \<Rightarrow> json \<Rightarrow> exn option \<times> WebSocketTunnel" where
  "send_status lib now t systems =
     send lib t
       [(''type'', JStr ''agent_status''), (''agent_id'', JStr (take 16 (agent_token t))),
        (''systems'', systems), (''version'', JStr ''1.0.0''),
        (''timestamp'', JStr (isoformat lib now))]"

text \<open>
  The \<open>command_handler\<close> passed to the constructor, under
  \<open>asyncio.wait_for(..., timeout=COMMAND_TIMEOUT)\<close>: it returns a frame or \<open>None\<close>, runs
  past the timeout, or raises.
\<close>

datatype handler_outcome = Returns "frame option" | TimesOut | Raises exn

text \<open>\<open>message.get(key, default)\<close> for a decoded message, which need not be a dictionary.\<close>

definition message_get :: "json \<Rightarrow> string \<Rightarrow> json \<Rightarrow> exn + json" where
  "message_get message k dflt =
     (case message of JObj d \<Rightarrow> Inr (dict_get d k dflt)
      | _ \<Rightarrow> Inl (OtherException ''AttributeError''))"

text \<open>
  \<open>_process_message\<close>. The clause \<open>except asyncio.TimeoutError\<close> answers the timeout
  of \<open>wait_for\<close> and a \<open>TimeoutError\<close> that the handler itself raises alike; any other
  exception of the handler leaves the function.
\<close>

definition process_message ::
  "pylib \<Rightarrow> (frame \<Rightarrow> handler_outcome) \<Rightarrow> nat \<Rightarrow> WebSocketTunnel \<Rightarrow> json
     \<Rightarrow> (exn + frame option) \<times> WebSocketTunnel" where
  "process_message lib command_handler now t message =
     (case message of
        JObj d \<Rightarrow>
          (let msg_type = dict_get d ''type'' JNull;
               session_id = dict_get d ''session_id'' (JStr []);
               params = dict_get d ''params'' (JObj []);
               t1 = logger DEBUG ''Command: {msg_type} (session: {session_id})''
                      [ArgJson msg_type, ArgJson session_id] t;
               t2 = t1\<lparr>stats := (stats t1)\<lparr>commands_processed :=
                                                commands_processed (stats t1) + 1\<rparr>\<rparr>;
               timed_out =
                 [(''type'', JStr ''error''), (''session_id'', session_id),
                  (''error'', JStr (''Command '' @ [CHR 0x27] @ py_str lib msg_type
                     @ [CHR 0x27] @ '' timed out after ''
                     @ py_str lib (JNum (int tunnel_COMMAND_TIMEOUT)) @ ''s''))]
           in if msg_type = JStr ''ping''
              then (Inr (Some [(''type'', JStr ''pong''), (''session_id'', session_id),
                               (''timestamp'', JStr (isoformat lib now))]), t2)
              else
                (case command_handler [(''type'', msg_type), (''session_id'', session_id),
                                       (''params'', params)] of
                   Returns result \<Rightarrow> (Inr result, t2)
                 | TimesOut \<Rightarrow> (Inr (Some timed_out), t2)
                 | Raises e \<Rightarrow>
                     if e = TimeoutError then (Inr (Some timed_out), t2) else (Inl e, t2)))
      | _ \<Rightarrow> (Inl (OtherException ''AttributeError''), t))"

text \<open>
  The body of the \<open>async for\<close> loop of \<open>start\<close>, in three parts. First the inner \<open>try\<close>
  block after \<open>json.loads\<close>: \<open>_process_message\<close>, then \<open>_send\<close> of a response that is
  neither \<open>None\<close> nor empty. The first component is the exception raised, if any.
\<close>

definition try_process ::
  "pylib \<Rightarrow> (frame \<Rightarrow> handler_outcome) \<Rightarrow> nat \<Rightarrow> WebSocketTunnel \<Rightarrow> json
     \<Rightarrow> exn option \<times> WebSocketTunnel" where
  "try_process lib command_handler now t message =
     (case process_message lib command_handler now t message of
        (Inl e, t') \<Rightarrow> (Some e, t')
      | (Inr None, t') \<Rightarrow> (None, t')
      | (Inr (Some response), t') \<Rightarrow>
          if response = [] then (None, t') else send lib t' response)"

text \<open>
  The clause \<open>except Exception as e\<close> of that block: log, then send an \<open>error\<close> frame
  with the message's \<open>session_id\<close>. What it raises leaves the loop.
\<close>

definition report_error ::
  "pylib \<Rightarrow> WebSocketTunnel \<Rightarrow> json \<Rightarrow> exn \<Rightarrow> exn option \<times> WebSocketTunnel" where
  "report_error lib t message e =
     (let t1 = logger ERROR ''Error processing message: {e}'' [ArgExn e] t
      in case message_get message ''session_id'' (JStr []) of
           Inl e' \<Rightarrow> (Some e', t1)
         | Inr session_id \<Rightarrow>
             send lib t1 [(''type'', JStr ''error''), (''session_id'', session_id),
                          (''error'', JStr (str_exn e))])"

text \<open>
  The whole body for one raw message of length \<open>raw_len\<close>. \<open>parsed\<close> is the value of
  \<open>json.loads\<close>, \<open>None\<close> when it raises \<open>JSONDecodeError\<close>. The first component is the
  exception that leaves the loop body, if any.
\<close>

definition handle_raw ::
  "pylib \<Rightarrow> (frame \<Rightarrow> handler_outcome) \<Rightarrow> nat \<Rightarrow> WebSocketTunnel \<Rightarrow> nat \<Rightarrow> json option
     \<Rightarrow> exn option \<times> WebSocketTunnel" where
  "handle_raw lib command_handler now t raw_len parsed =
     (let t1 = t\<lparr>stats := (stats t)\<lparr>messages_received := messages_received (stats t) + 1,
                                     bytes_received := bytes_received (stats t) + raw_len\<rparr>\<rparr>
      in case parsed of
           None \<Rightarrow> (None, logger WARNING ''Invalid JSON received: {raw_message[:100]}'' [] t1)
         | Some message \<Rightarrow>
             (case try_process lib command_handler now t1 message of
                (None, t2) \<Rightarrow> (None, t2)
              | (Some e, t2) \<Rightarrow>
                  if is_Exception e then report_error lib t2 message e else (Some e, t2)))"

text \<open>
  One round of \<open>_heartbeat_loop\<close> after its sleep. The flag says whether the heartbeat
  task is still in its loop; a failed send leaves the loop.
\<close>

definition heartbeat ::
  "pylib \<Rightarrow> nat \<Rightarrow> WebSocketTunnel \<Rightarrow> bool \<Rightarrow> WebSocketTunnel \<times> bool" where
  "heartbeat lib now t alive =
     (if \<not> alive then (t, False)
      else
        (let t1 = t\<lparr>stats := (stats t)\<lparr>last_heartbeat := Some now\<rparr>\<rparr>;
             uptime = (case connected_since (stats t1) of
                         Some since \<Rightarrow> int now - int since
                       | None \<Rightarrow> 0);
             (raised, t2) =
               send lib t1
                 [(''type'', JStr ''heartbeat''), (''timestamp'', JStr (isoformat lib now)),
                  (''stats'', JObj [(''commands_processed'',
                                       JNum (int (commands_processed (stats t1)))),
                                     (''uptime_seconds'', JNum uptime)])]
         in case raised of
              Some e \<Rightarrow> (t2, False)
            | None \<Rightarrow> (t2, running t2)))"

text \<open>
  What the environment does during one connected session, in order: a raw message
  arrives (its length and its decoding), the heartbeat task wakes up from its sleep, or
  the connection is lost while the object is still stored in the tunnel.
\<close>

datatype session_event =
    Message nat nat "json option"
  | HeartbeatTick nat
  | ConnectionLost

fun run_session ::
  "pylib \<Rightarrow> (frame \<Rightarrow> handler_outcome) \<Rightarrow> WebSocketTunnel \<Rightarrow> bool \<Rightarrow> session_event list
     \<Rightarrow> exn option \<times> WebSocketTunnel" where
  "run_session lib command_handler t alive [] = (None, t)"
| "run_session lib command_handler t alive (Message now raw_len parsed # evs) =
     (case handle_raw lib command_handler now t raw_len parsed of
        (Some e, t') \<Rightarrow> (Some e, t')
      | (None, t') \<Rightarrow> run_session lib command_handler t' alive evs)"
| "run_session lib command_handler t alive (HeartbeatTick now # evs) =
     (case heartbeat lib now t alive of
        (t', alive') \<Rightarrow> run_session lib command_handler t' alive' evs)"
| "run_session lib command_handler t alive (ConnectionLost # evs) =
     run_session lib command_handler (t\<lparr>tunnel_ws := Some ClosedChannel\<rparr>) alive evs"

text \<open>\<open>stop\<close>.\<close>

definition stop :: "WebSocketTunnel \<Rightarrow> WebSocketTunnel" where
  "stop t = logger INFO ''Tunnel stopped'' [] (t\<lparr>running := False, tunnel_ws := None\<rparr>)"

text \<open>
  The state of the loop of \<open>start\<close>: the tunnel, the local variable \<open>reconnect_delay\<close> and
  the arguments of the calls of \<open>asyncio.sleep\<close> made so far.
\<close>

record supervisor =
  tunnel :: WebSocketTunnel
  reconnect_delay :: nat
  slept :: "nat list"

text \<open>The clause \<open>except Exception as e\<close> of the loop.\<close>

definition backoff :: "exn \<Rightarrow> supervisor \<Rightarrow> supervisor" where
  "backoff e s =
     (let t = tunnel s;
          t1 = t\<lparr>tunnel_ws := None,
                 stats := (stats t)\<lparr>reconnect_count := reconnect_count (stats t) + 1\<rparr>\<rparr>;
          t2 = logger WARNING
                 ''Tunnel disconnected: {e}. Reconnecting in {reconnect_delay}s... (attempt #{self._stats.reconnect_count})''
                 [ArgExn e, ArgNat (reconnect_delay s), ArgNat (reconnect_count (stats t1))] t1
      in s\<lparr>tunnel := t2,
           slept := slept s @ [reconnect_delay s],
           reconnect_delay := min (reconnect_delay s * 2) RECONNECT_DELAY_MAX\<rparr>)"

text \<open>
  One pass of the \<open>while\<close> loop is decided by the environment: the connection attempt
  raises; or it succeeds at a given time, the session sees its events and the iteration
  over the socket then ends normally (\<open>None\<close>) or with an exception; or \<open>stop\<close> is
  called by another task before the loop tests \<open>_running\<close> again.
\<close>

datatype attempt =
    ConnectRaises exn
  | Connected nat "session_event list" "exn option"
  | StopCalled

text \<open>
  The block under \<open>async with ... as ws\<close> from \<open>_send_status\<close> on: the status frame,
  the heartbeat task and the message loop until the session ends. The first component is
  the exception that leaves the block, if any.
\<close>

definition session_body ::
  "pylib \<Rightarrow> (frame \<Rightarrow> handler_outcome) \<Rightarrow> json \<Rightarrow> WebSocketTunnel \<Rightarrow> nat
     \<Rightarrow> session_event list \<Rightarrow> exn option \<Rightarrow> exn option \<times> WebSocketTunnel" where
  "session_body lib command_handler system_info t now evs ending =
     (case send_status lib now t system_info of
        (Some e, t') \<Rightarrow> (Some e, t')
      | (None, t') \<Rightarrow>
          (case run_session lib command_handler t' True evs of
             (Some e, t'') \<Rightarrow> (Some e, t'')
           | (None, t'') \<Rightarrow> (ending, t'')))"

text \<open>
  The whole block: store the connection, note the time, reset \<open>reconnect_delay\<close>, log,
  then the rest of the session. Leaving \<open>async with\<close>, on any path, closes the
  connection; the closed object stays in \<open>self._ws\<close>.
\<close>

definition connected ::
  "pylib \<Rightarrow> (frame \<Rightarrow> handler_outcome) \<Rightarrow> json \<Rightarrow> supervisor \<Rightarrow> nat \<Rightarrow> session_event list
     \<Rightarrow> exn option \<Rightarrow> exn option \<times> supervisor" where
  "connected lib command_handler system_info s now evs ending =
     (let t = tunnel s;
          t1 = t\<lparr>tunnel_ws := Some OpenChannel,
                 stats := (stats t)\<lparr>connected_since := Some now\<rparr>\<rparr>;
          t2 = logger INFO ''Tunnel connected to {self.cloud_url}'' [] t1;
          s1 = s\<lparr>reconnect_delay := RECONNECT_DELAY_INITIAL\<rparr>;
          (raised, t3) = session_body lib command_handler system_info t2 now evs ending;
          t4 = t3\<lparr>tunnel_ws := Some ClosedChannel\<rparr>
      in (raised, s1\<lparr>tunnel := t4\<rparr>))"

text \<open>
  The \<open>while self._running\<close> loop. The result is the state when the loop is left, or
  when the given attempts are used up.
\<close>

fun start_loop ::
  "pylib \<Rightarrow> (frame \<Rightarrow> handler_outcome) \<Rightarrow> json \<Rightarrow> supervisor \<Rightarrow> attempt list \<Rightarrow> supervisor" where
  "start_loop lib command_handler system_info s [] = s"
| "start_loop lib command_handler system_info s (a # rest) =
     (if \<not> running (tunnel s) then s
      else
        (case a of
           StopCalled \<Rightarrow>
             start_loop lib command_handler system_info (s\<lparr>tunnel := stop (tunnel s)\<rparr>) rest
         | ConnectRaises e \<Rightarrow>
             if is_Exception e
             then start_loop lib command_handler system_info (backoff e s) rest
             else s\<lparr>tunnel := logger INFO ''Tunnel shutdown requested'' [] (tunnel s)\<rparr>
         | Connected now evs ending \<Rightarrow>
             (case connected lib command_handler system_info s now evs ending of
                (None, s') \<Rightarrow> start_loop lib command_handler system_info s' rest
              | (Some e, s') \<Rightarrow>
                  if is_Exception e
                  then start_loop lib command_handler system_info (backoff e s') rest
                  else s'\<lparr>tunnel := logger INFO ''Tunnel shutdown requested'' []
                                       (tunnel s')\<rparr>)))"

text \<open>\<open>start\<close>; \<open>system_info or []\<close> is the list passed on to \<open>_send_status\<close>.\<close>

definition start ::
  "pylib \<Rightarrow> (frame \<Rightarrow> handler_outcome) \<Rightarrow> json \<Rightarrow> WebSocketTunnel \<Rightarrow> attempt list \<Rightarrow> supervisor" where
  "start lib command_handler system_info t attempts =
     start_loop lib command_handler system_info
       \<lparr>tunnel = t\<lparr>running := True\<rparr>, reconnect_delay = RECONNECT_DELAY_INITIAL, slept = []\<rparr>
       attempts"

section \<open>Environments and example states used in the statements\<close>






text \<open>A pool with two agents, each serving one system.\<close>

definition pool_ex :: "nat AgentPool" where
  "pool_ex =
     map_system
       (map_system (snd (register (snd (register AgentPool_init ''a1'' 1)) ''a2'' 2))
          ''ecc'' ''a1'')
       ''s4'' ''a2''"



text \<open>Stand-ins for the library functions, the tools and the command handler.\<close>

definition lib_ex :: pylib where
  "lib_ex = \<lparr>json_dumps = (\<lambda>d. ''{}''), isoformat = (\<lambda>n. ''T''), repr = (\<lambda>v. ''?'')\<rparr>"

definition tools_ex :: mcp_server where
  "tools_ex =
     \<lparr>sap_search = (\<lambda>p. Inr ''found''), sap_read = (\<lambda>p. Inr ''source''),
      sap_write = (\<lambda>p. Inl (OtherException ''locked'')), sap_activate = (\<lambda>p. Inr ''ok''),
      sap_syntax_check = (\<lambda>p. Inr ''ok''), sap_atc = (\<lambda>p. Inr ''ok'')\<rparr>"

definition handler_ex :: "frame \<Rightarrow> handler_outcome" where
  "handler_ex command = Returns None"

text \<open>A command of a kind the dispatcher has no branch for.\<close>

definition frobnicate :: frame where
  "frobnicate = [(''type'', JStr ''frobnicate''), (''session_id'', JStr ''s-7'')]"

text \<open>A new tunnel, a refused connection, and two sessions: one lost, one closed.\<close>

definition tunnel_ex :: WebSocketTunnel where
  "tunnel_ex = WebSocketTunnel_init ''acs_0123456789abcdef''"

definition refused :: exn where
  "refused = OtherException ''connection refused''"


section \<open>Properties of the bridge\<close>




























section \<open>Properties of the pool\<close>

lemma map_of_filter_value:
  "distinct (map fst xs) \<Longrightarrow>
   map_of (filter (\<lambda>(k, v). v \<noteq> a) xs) n =
     (if map_of xs n = Some a then None else map_of xs n)"
proof (induction xs)
  case Nil
  then show ?case by simp
next
  case (Cons x xs)
  obtain k v where x: "x = (k, v)" by (cases x)
  from Cons.prems x have notin: "k \<notin> fst ` set xs" and d: "distinct (map fst xs)" by auto
  from notin have none: "map_of xs k = None" by (simp add: map_of_eq_None_iff)
  show ?case using Cons.IH [OF d] x none by auto
qed

lemma pool_ok_init: "pool_ok AgentPool_init"
  by (simp add: pool_ok_def AgentPool_init_def)

lemma pool_ok_register: "pool_ok p \<Longrightarrow> pool_ok (snd (register p a w))"
  by (simp add: pool_ok_def register_def Let_def AList.distinct_update)

lemma pool_ok_map_system: "pool_ok p \<Longrightarrow> pool_ok (map_system p n a)"
  by (simp add: pool_ok_def map_system_def AList.distinct_update)

lemma pool_ok_unregister: "pool_ok p \<Longrightarrow> pool_ok (unregister p a)"
  by (simp add: pool_ok_def unregister_def AList.distinct_delete distinct_map_filter)

lemma pool_ex_value:
  "pool_ex =
     \<lparr>agents = [(''a1'', \<lparr>ws = 1, agent_id = ''a1'', pending = []\<rparr>),
                (''a2'', \<lparr>ws = 2, agent_id = ''a2'', pending = []\<rparr>)],
      system_map = [(''ecc'', ''a1''), (''s4'', ''a2'')]\<rparr>"
  by (simp add: pool_ex_def map_system_def register_def AgentPool_init_def Let_def)

text \<open>
  Claim C5. In a pool whose tables have unique keys, after \<open>unregister\<close> of an agent
  the agent is not in the agent table, every system name that was mapped to it is
  unmapped and \<open>get_by_system\<close> gives \<open>None\<close> for it, and every other system name maps to
  what it mapped to before.
\<close>

theorem unregister_purges_mappings:
  "pool_ok p \<longrightarrow>
     map_of (agents (unregister p a)) a = None \<and>
     get_by_agent_id (unregister p a) a = None \<and>
     (\<forall>n. map_of (system_map p) n = Some a \<longrightarrow>
            map_of (system_map (unregister p a)) n = None \<and>
            get_by_system (unregister p a) n = None) \<and>
     (\<forall>n. map_of (system_map p) n \<noteq> Some a \<longrightarrow>
            map_of (system_map (unregister p a)) n = map_of (system_map p) n)"
  by (simp add: pool_ok_def unregister_def get_by_system_def get_by_agent_id_def
        map_of_filter_value AList.delete_conv')

theorem unregister_purges_mappings_witness:
  "pool_ok pool_ex \<and>
   get_by_system (unregister pool_ex ''a1'') ''ecc'' = None \<and>
   map_of (system_map (unregister pool_ex ''a1'')) ''s4'' = Some ''a2''"
proof -
  have ok: "pool_ok pool_ex" by (simp add: pool_ex_value pool_ok_def)
  have m: "map_of (system_map pool_ex) ''ecc'' = Some ''a1''" by (simp add: pool_ex_value)
  have m2: "map_of (system_map pool_ex) ''s4'' = Some ''a2''" by (simp add: pool_ex_value)
  have ne: "map_of (system_map pool_ex) ''s4'' \<noteq> Some ''a1''" by (simp add: pool_ex_value)
  from unregister_purges_mappings [of pool_ex "''a1''"] ok
  have A: "\<forall>n. map_of (system_map pool_ex) n = Some ''a1'' \<longrightarrow>
             map_of (system_map (unregister pool_ex ''a1'')) n = None \<and>
             get_by_system (unregister pool_ex ''a1'') n = None"
   and B: "\<forall>n. map_of (system_map pool_ex) n \<noteq> Some ''a1'' \<longrightarrow>
             map_of (system_map (unregister pool_ex ''a1'')) n = map_of (system_map pool_ex) n"
    by blast+
  from A m have "get_by_system (unregister pool_ex ''a1'') ''ecc'' = None" by blast
  moreover from B ne
  have "map_of (system_map (unregister pool_ex ''a1'')) ''s4'' = map_of (system_map pool_ex) ''s4''"
    by blast
  ultimately show ?thesis using ok m2 by simp
qed

text \<open>
  Claim C4, as the code has it. \<open>get_by_system\<close> gives \<open>None\<close> for a name that is not
  mapped and \<open>None\<close> for a name mapped to an agent that is not in the agent table; the two
  outcomes are the same value. The lookup raises nothing.
\<close>

theorem get_by_system_None:
  "(map_of (system_map p) n = None \<longrightarrow> get_by_system p n = None) \<and>
   (\<forall>a. map_of (system_map p) n = Some a \<and> map_of (agents p) a = None \<longrightarrow>
         get_by_system p n = None)"
  by (simp add: get_by_system_def)

theorem get_by_system_None_witness:
  "map_of (system_map pool_ex) ''crm'' = None \<and> get_by_system pool_ex ''crm'' = None"
proof -
  have "map_of (system_map pool_ex) ''crm'' = None" by (simp add: pool_ex_value)
  with get_by_system_None [of pool_ex "''crm''"] show ?thesis by blast
qed

text \<open>
  Claim C4 as stated fails: the system \<open>ecc\<close> was never mapped in the empty pool, and in
  the second pool it was mapped to agent \<open>a1\<close>, which then disconnected; in the third the
  name is mapped to an agent that is gone. The three lookups give the same outcome.
\<close>

theorem get_by_system_indistinguishable:
  "get_by_system (AgentPool_init :: nat AgentPool) ''ecc'' = None \<and>
   get_by_system
     (unregister (map_system (snd (register (AgentPool_init :: nat AgentPool) ''a1'' 1))
                    ''ecc'' ''a1'') ''a1'') ''ecc'' = None \<and>
   get_by_system
     (map_system (unregister (snd (register (AgentPool_init :: nat AgentPool) ''a1'' 1)) ''a1'')
        ''ecc'' ''a1'') ''ecc'' = None"
  by (simp add: get_by_system_def unregister_def map_system_def register_def
        AgentPool_init_def Let_def)

section \<open>Properties of the dispatcher\<close>

text \<open>
  Claim C3, as the code has it. For a command whose kind is none of the kinds the
  dispatcher has a branch for, \<open>_handle_cloud_command\<close> returns a frame of type
  \<open>result\<close> (not \<open>error\<close>) whose data is "Unknown command: " followed by the kind, and
  whose \<open>session_id\<close> is the request's. It raises nothing.
\<close>

theorem unknown_command_result_frame:
  "dict_get command ''type'' JNull \<notin> JStr ` set known_commands \<longrightarrow>
   handle_cloud_command lib tools command =
     Inr [(''type'', JStr ''result''),
          (''session_id'', dict_get command ''session_id'' (JStr [])),
          (''data'', JStr (''Unknown command: '' @ py_str lib (dict_get command ''type'' JNull)))]"
  by (simp add: handle_cloud_command_def known_commands_def Let_def)

theorem unknown_command_result_frame_witness:
  "dict_get frobnicate ''type'' JNull \<notin> JStr ` set known_commands \<and>
   handle_cloud_command lib_ex tools_ex frobnicate =
     Inr [(''type'', JStr ''result''), (''session_id'', JStr ''s-7''),
          (''data'', JStr ''Unknown command: frobnicate'')]"
proof -
  have h: "dict_get frobnicate ''type'' JNull \<notin> JStr ` set known_commands"
    by (simp add: frobnicate_def dict_get_def known_commands_def)
  from unknown_command_result_frame [of frobnicate lib_ex tools_ex] h
  show ?thesis by (simp add: frobnicate_def dict_get_def py_str_def)
qed

text \<open>
  Claim C3 as stated fails: for the unknown kind \<open>frobnicate\<close> the frame that comes back
  has type \<open>result\<close>, not \<open>error\<close>.
\<close>

theorem unknown_command_not_error_frame:
  "handle_cloud_command lib_ex tools_ex frobnicate =
     Inr [(''type'', JStr ''result''), (''session_id'', JStr ''s-7''),
          (''data'', JStr ''Unknown command: frobnicate'')] \<and>
   (case handle_cloud_command lib_ex tools_ex frobnicate of
      Inr f \<Rightarrow> dict_get f ''type'' JNull \<noteq> JStr ''error''
    | Inl e \<Rightarrow> False)"
  by (simp add: handle_cloud_command_def frobnicate_def Let_def dict_get_def py_str_def)

section \<open>Properties of the agent endpoint\<close>

lemma validate_agent_token_None:
  "(validate_agent_token tok = None) = (tok = [] \<or> take 4 tok \<noteq> ''acs_'')"
  by (simp add: validate_agent_token_def)

lemma py_replace_empty: "py_replace ''Bearer '' [] [] = []"
  by (simp add: py_replace.simps)

text \<open>
  Claim C8. When the handshake has no \<open>authorization\<close> header, or the token taken from
  it is empty or does not start with \<open>acs_\<close>, the endpoint accepts the socket, closes it
  with code 4001 and returns: it receives no frame, never assigns to the connection
  table, and leaves the table as it was.
\<close>

theorem invalid_token_closed_4001:
  "(map_of headers ''authorization'' = None \<or> extract_token headers = [] \<or>
    take 4 (extract_token headers) \<noteq> ''acs_'') \<longrightarrow>
   agent_websocket conns w headers frames =
     ([Accept, Close 4001 ''Invalid agent token''], conns, None)"
proof (intro impI)
  assume a: "map_of headers ''authorization'' = None \<or> extract_token headers = [] \<or>
             take 4 (extract_token headers) \<noteq> ''acs_''"
  have "validate_agent_token (extract_token headers) = None"
  proof (cases "map_of headers ''authorization''")
    case None
    then have "extract_token headers = []"
      by (simp add: extract_token_def py_replace_empty)
    then show ?thesis by (simp add: validate_agent_token_None)
  next
    case (Some h)
    with a show ?thesis by (simp add: validate_agent_token_None)
  qed
  then show "agent_websocket conns w headers frames =
          ([Accept, Close 4001 ''Invalid agent token''], conns, None)"
    by (simp add: agent_websocket_def Let_def)
qed

theorem invalid_token_closed_4001_witness:
  "extract_token [(''authorization'', ''Bearer xyz_123'')] = ''xyz_123'' \<and>
   agent_websocket [(''agent_acs_0'', 7::nat)] 8 [(''authorization'', ''Bearer xyz_123'')]
       [[(''type'', JStr ''agent_status'')]] =
     ([Accept, Close 4001 ''Invalid agent token''], [(''agent_acs_0'', 7)], None) \<and>
   agent_websocket [(''agent_acs_0'', 7::nat)] 8 [] [[(''type'', JStr ''agent_status'')]] =
     ([Accept, Close 4001 ''Invalid agent token''], [(''agent_acs_0'', 7)], None)"
proof -
  have e: "extract_token [(''authorization'', ''Bearer xyz_123'')] = ''xyz_123''"
    by (simp add: extract_token_def py_replace.simps)
  have "take 4 (extract_token [(''authorization'', ''Bearer xyz_123'')]) \<noteq> ''acs_''"
    by (simp add: e)
  with invalid_token_closed_4001
         [of "[(''authorization'', ''Bearer xyz_123'')]" "[(''agent_acs_0'', 7::nat)]" 8
             "[[(''type'', JStr ''agent_status'')]]"]
  have a: "agent_websocket [(''agent_acs_0'', 7::nat)] 8 [(''authorization'', ''Bearer xyz_123'')]
             [[(''type'', JStr ''agent_status'')]] =
           ([Accept, Close 4001 ''Invalid agent token''], [(''agent_acs_0'', 7)], None)"
    by blast
  have "map_of ([] :: (string \<times> string) list) ''authorization'' = None" by simp
  with invalid_token_closed_4001
         [of "[]" "[(''agent_acs_0'', 7::nat)]" 8 "[[(''type'', JStr ''agent_status'')]]"]
  have b: "agent_websocket [(''agent_acs_0'', 7::nat)] 8 [] [[(''type'', JStr ''agent_status'')]] =
           ([Accept, Close 4001 ''Invalid agent token''], [(''agent_acs_0'', 7)], None)"
    by blast
  from e a b show ?thesis by blast
qed

section \<open>Properties of the tunnel\<close>

text \<open>
  Claim C9, as the code has it. With no channel stored in the tunnel, \<open>_send\<close> logs a
  warning and drops the frame: nothing is raised and nothing but the log changes. With a
  channel stored, an exception of the channel's \<open>send\<close> leaves \<open>_send\<close> and reaches the
  caller, and the tunnel is unchanged.
\<close>

theorem send_without_channel:
  "(tunnel_ws t = None \<longrightarrow>
      send lib t data =
        (None, t\<lparr>tunnel_log := tunnel_log t @ [(WARNING, ''Cannot send - not connected'', [])]\<rparr>)) \<and>
   (\<forall>c e. tunnel_ws t = Some c \<and> channel_send c (json_dumps lib data) = Some e \<longrightarrow>
           send lib t data = (Some e, t))"
  by (simp add: send_def logger_def Let_def)

theorem send_without_channel_witness:
  "tunnel_ws tunnel_ex = None \<and>
   send lib_ex tunnel_ex [(''type'', JStr ''diff'')] =
     (None, tunnel_ex\<lparr>tunnel_log := [(WARNING, ''Cannot send - not connected'', [])]\<rparr>)"
proof -
  have n: "tunnel_ws tunnel_ex = None" by (simp add: tunnel_ex_def WebSocketTunnel_init_def)
  have l: "tunnel_log tunnel_ex = []" by (simp add: tunnel_ex_def WebSocketTunnel_init_def)
  from send_without_channel [of tunnel_ex lib_ex "[(''type'', JStr ''diff'')]"] n l
  show ?thesis by simp
qed

text \<open>
  Claim C9 as stated fails for a closed channel: after a session that the peer closed
  normally, the closed connection object is still stored in the tunnel; its \<open>send\<close>
  raises, and the exception leaves \<open>_send\<close>.
\<close>

theorem send_on_closed_channel_raises:
  "tunnel_ws (tunnel (start lib_ex handler_ex (JArr []) tunnel_ex [Connected 200 [] None]))
     = Some ClosedChannel \<and>
   fst (send lib_ex (tunnel (start lib_ex handler_ex (JArr []) tunnel_ex [Connected 200 [] None]))
          [(''type'', JStr ''diff'')]) = Some (OtherException ''ConnectionClosed'')"
  by (simp add: start_def tunnel_ex_def lib_ex_def WebSocketTunnel_init_def TunnelStats_init_def
        connected_def session_body_def send_status_def send_def channel_send_def logger_def
        Let_def)

lemma backoff_fields:
  "slept (backoff e s) = slept s @ [reconnect_delay s]"
  "reconnect_delay (backoff e s) = min (reconnect_delay s * 2) RECONNECT_DELAY_MAX"
  "running (tunnel (backoff e s)) = running (tunnel s)"
  by (simp_all add: backoff_def Let_def logger_def)

lemma min_double: "min (min (d * 2) (60::nat) * 2 ^ k) 60 = min (d * 2 ^ Suc k) 60"
proof (cases "d * 2 \<le> 60")
  case True
  then show ?thesis by (simp add: mult.assoc)
next
  case False
  have "(1::nat) \<le> 2 ^ k" by simp
  then have a: "(60::nat) \<le> 60 * 2 ^ k" by simp
  from False have "60 < d * 2" by simp
  also have "d * 2 \<le> d * 2 * 2 ^ k" by simp
  finally have b: "60 < d * 2 ^ Suc k" by (simp add: mult.assoc)
  from False have m: "min (d * 2) 60 = 60" by (simp only: min_def) simp
  have l: "min (60 * 2 ^ k) (60::nat) = 60" using a by (rule min_absorb2)
  have r: "min (d * 2 ^ Suc k) 60 = 60" using b by (intro min_absorb2) simp
  show ?thesis by (simp only: m l r)
qed

lemma upt_shift: "map f [0..<Suc n] = f 0 # map (\<lambda>k. f (Suc k)) [0..<n]"
  by (simp only: upt_conv_Cons [of 0 "Suc n"] map_Suc_upt [symmetric]) (simp add: comp_def)

lemma failures_backoff:
  "running (tunnel s) \<Longrightarrow> reconnect_delay s \<le> RECONNECT_DELAY_MAX \<Longrightarrow>
   \<forall>e\<in>set es. is_Exception e \<Longrightarrow>
   slept (start_loop lib h si s (map ConnectRaises es)) =
     slept s @ map (\<lambda>k. min (reconnect_delay s * 2 ^ k) RECONNECT_DELAY_MAX) [0..<length es] \<and>
   reconnect_delay (start_loop lib h si s (map ConnectRaises es)) =
     min (reconnect_delay s * 2 ^ length es) RECONNECT_DELAY_MAX \<and>
   running (tunnel (start_loop lib h si s (map ConnectRaises es)))"
proof (induction es arbitrary: s)
  case Nil
  then show ?case by simp
next
  case (Cons e es)
  let ?s = "backoff e s"
  from Cons.prems have e: "is_Exception e" and es: "\<forall>e\<in>set es. is_Exception e" by auto
  from Cons.prems have run: "running (tunnel ?s)" by (simp add: backoff_fields)
  have le: "reconnect_delay ?s \<le> RECONNECT_DELAY_MAX" by (simp add: backoff_fields)
  have step: "start_loop lib h si s (map ConnectRaises (e # es)) =
              start_loop lib h si ?s (map ConnectRaises es)"
    using Cons.prems(1) e by simp
  note IH = Cons.IH [OF run le es]
  have d: "\<And>k. min (min (reconnect_delay s * 2) RECONNECT_DELAY_MAX * 2 ^ k) RECONNECT_DELAY_MAX =
           min (reconnect_delay s * 2 ^ Suc k) RECONNECT_DELAY_MAX"
    by (simp only: RECONNECT_DELAY_MAX_def min_double)
  have z: "min (reconnect_delay s * 2 ^ 0) RECONNECT_DELAY_MAX = reconnect_delay s"
    using Cons.prems(2) by simp
  have sl: "slept (start_loop lib h si ?s (map ConnectRaises es)) =
        slept s @ map (\<lambda>k. min (reconnect_delay s * 2 ^ k) RECONNECT_DELAY_MAX) [0..<Suc (length es)]"
    using IH by (simp only: backoff_fields d upt_shift [of _ "length es"] z) simp
  have dl: "reconnect_delay (start_loop lib h si ?s (map ConnectRaises es)) =
        min (reconnect_delay s * 2 ^ Suc (length es)) RECONNECT_DELAY_MAX"
    using IH by (simp only: backoff_fields d)
  from sl dl IH show ?case
    unfolding step by (simp only: length_Cons)
qed

lemma connected_delay:
  "reconnect_delay (snd (connected lib h si s now evs ending)) = RECONNECT_DELAY_INITIAL"
  "slept (snd (connected lib h si s now evs ending)) = slept s"
  by (simp_all add: connected_def Let_def split: prod.splits option.splits)























lemma sorted_backoff: "sorted (map (\<lambda>k. min (d * 2 ^ k) (m::nat)) [0..<n])"
proof -
  have mono: "\<And>x y. x \<le> y \<Longrightarrow> min (d * 2 ^ x) m \<le> min (d * 2 ^ y) m"
  proof -
    fix x y :: nat
    assume "x \<le> y"
    then have "(2::nat) ^ x \<le> 2 ^ y" by (simp add: power_increasing)
    then have "d * 2 ^ x \<le> d * 2 ^ y" by (rule mult_le_mono2)
    then show "min (d * 2 ^ x) m \<le> min (d * 2 ^ y) m" by (rule min.mono) simp
  qed
  have "sorted_wrt (\<lambda>x y. min (d * 2 ^ x) m \<le> min (d * 2 ^ y) m) [0..<n]"
    by (rule sorted_wrt_mono_rel [OF _ sorted_upt]) (rule mono)
  then show ?thesis by (simp only: sorted_map)
qed

lemma start_loop_connected:
  "running (tunnel s) \<Longrightarrow>
   start_loop lib h si s [Connected now evs ending] =
     (case connected lib h si s now evs ending of
        (None, s') \<Rightarrow> s'
      | (Some e, s') \<Rightarrow>
          if is_Exception e then backoff e s'
          else s'\<lparr>tunnel := logger INFO ''Tunnel shutdown requested'' [] (tunnel s')\<rparr>)"
  by (simp split: prod.splits option.splits)



text \<open>
  Claim C2. From \<open>start\<close>, consecutive failed connection attempts sleep for
  2, 4, 8, 16, 32, 60, 60, ... seconds: the k-th sleep is \<open>min (2 * 2 ^ k) 60\<close>, the
  sequence never decreases, and the delay afterwards is the next value. A successful
  connection sets the delay to 2: a session that then ends normally leaves it at 2
  without sleeping, and one that ends with an exception sleeps for 2 and doubles to 4.
\<close>

theorem reconnect_backoff:
  "((\<forall>e\<in>set es. is_Exception e) \<longrightarrow>
      slept (start lib h si t (map ConnectRaises es)) =
        map (\<lambda>k. min (RECONNECT_DELAY_INITIAL * 2 ^ k) RECONNECT_DELAY_MAX) [0..<length es] \<and>
      sorted (slept (start lib h si t (map ConnectRaises es))) \<and>
      reconnect_delay (start lib h si t (map ConnectRaises es)) =
        min (RECONNECT_DELAY_INITIAL * 2 ^ length es) RECONNECT_DELAY_MAX) \<and>
   reconnect_delay (snd (connected lib h si s now evs ending)) = RECONNECT_DELAY_INITIAL \<and>
   slept (snd (connected lib h si s now evs ending)) = slept s \<and>
   (running (tunnel s) \<and> fst (connected lib h si s now evs ending) = None \<longrightarrow>
      slept (start_loop lib h si s [Connected now evs ending]) = slept s \<and>
      reconnect_delay (start_loop lib h si s [Connected now evs ending]) = RECONNECT_DELAY_INITIAL) \<and>
   (\<forall>e. running (tunnel s) \<and> fst (connected lib h si s now evs ending) = Some e \<and> is_Exception e \<longrightarrow>
      slept (start_loop lib h si s [Connected now evs ending]) = slept s @ [RECONNECT_DELAY_INITIAL] \<and>
      reconnect_delay (start_loop lib h si s [Connected now evs ending]) =
        min (RECONNECT_DELAY_INITIAL * 2) RECONNECT_DELAY_MAX)"
proof (intro conjI impI allI)
  assume es: "\<forall>e\<in>set es. is_Exception e"
  let ?s0 = "\<lparr>tunnel = t\<lparr>running := True\<rparr>, reconnect_delay = RECONNECT_DELAY_INITIAL, slept = []\<rparr>"
  have run: "running (tunnel ?s0)" by simp
  have le: "reconnect_delay ?s0 \<le> RECONNECT_DELAY_MAX"
    by (simp add: RECONNECT_DELAY_INITIAL_def RECONNECT_DELAY_MAX_def)
  note fb = failures_backoff [OF run le es, of lib h si]
  from fb show sl: "slept (start lib h si t (map ConnectRaises es)) =
        map (\<lambda>k. min (RECONNECT_DELAY_INITIAL * 2 ^ k) RECONNECT_DELAY_MAX) [0..<length es]"
    by (simp add: start_def)
  show "sorted (slept (start lib h si t (map ConnectRaises es)))"
    by (simp only: sl sorted_backoff)
  from fb show "reconnect_delay (start lib h si t (map ConnectRaises es)) =
        min (RECONNECT_DELAY_INITIAL * 2 ^ length es) RECONNECT_DELAY_MAX"
    by (simp add: start_def)
next
  show "reconnect_delay (snd (connected lib h si s now evs ending)) = RECONNECT_DELAY_INITIAL"
    by (rule connected_delay)
  show "slept (snd (connected lib h si s now evs ending)) = slept s"
    by (rule connected_delay)
next
  assume a: "running (tunnel s) \<and> fst (connected lib h si s now evs ending) = None"
  obtain r s' where c: "connected lib h si s now evs ending = (r, s')"
    by (cases "connected lib h si s now evs ending")
  from a c have sl: "start_loop lib h si s [Connected now evs ending] = s'"
    by (simp add: start_loop_connected)
  from connected_delay [of lib h si s now evs ending] c
  have d: "reconnect_delay s' = RECONNECT_DELAY_INITIAL" "slept s' = slept s" by simp_all
  show "slept (start_loop lib h si s [Connected now evs ending]) = slept s"
    by (simp only: sl d)
  show "reconnect_delay (start_loop lib h si s [Connected now evs ending]) = RECONNECT_DELAY_INITIAL"
    by (simp only: sl d)
next
  fix e
  assume a: "running (tunnel s) \<and> fst (connected lib h si s now evs ending) = Some e \<and> is_Exception e"
  obtain r s' where c: "connected lib h si s now evs ending = (r, s')"
    by (cases "connected lib h si s now evs ending")
  from a c have sl: "start_loop lib h si s [Connected now evs ending] = backoff e s'"
    by (simp add: start_loop_connected)
  from connected_delay [of lib h si s now evs ending] c
  have d: "reconnect_delay s' = RECONNECT_DELAY_INITIAL" "slept s' = slept s" by simp_all
  show "slept (start_loop lib h si s [Connected now evs ending]) = slept s @ [RECONNECT_DELAY_INITIAL]"
    by (simp only: sl backoff_fields d)
  show "reconnect_delay (start_loop lib h si s [Connected now evs ending]) =
        min (RECONNECT_DELAY_INITIAL * 2) RECONNECT_DELAY_MAX"
    by (simp only: sl backoff_fields d)
qed

theorem reconnect_backoff_witness:
  "slept (start lib_ex handler_ex (JArr []) tunnel_ex (map ConnectRaises (replicate 7 refused)))
     = [2, 4, 8, 16, 32, 60, 60] \<and>
   reconnect_delay
     (start lib_ex handler_ex (JArr []) tunnel_ex (map ConnectRaises (replicate 7 refused))) = 60"
proof -
  have h: "\<forall>e\<in>set (replicate 7 refused). is_Exception e" by (simp add: refused_def)
  have m: "map (\<lambda>k. min (RECONNECT_DELAY_INITIAL * 2 ^ k) RECONNECT_DELAY_MAX)
             [0..<length (replicate 7 refused)]
           = [2, 4, 8, 16, 32, 60, 60]"
    by (simp add: RECONNECT_DELAY_INITIAL_def RECONNECT_DELAY_MAX_def upt_rec)
  have d: "min (RECONNECT_DELAY_INITIAL * 2 ^ length (replicate 7 refused)) RECONNECT_DELAY_MAX = 60"
    by (simp add: RECONNECT_DELAY_INITIAL_def RECONNECT_DELAY_MAX_def)
  from reconnect_backoff [of "replicate 7 refused" lib_ex handler_ex "JArr []" tunnel_ex] h m d
  show ?thesis by simp
qed




end
